theory Spec2Isabelle
  imports Complex_Main "HOL-Library.Sublist"
begin

section \<open>Python strings\<close>

text \<open>
  A Python \<open>str\<close> is modelled as a \<open>string\<close>, one \<open>char\<close> per character; only the
  ASCII range is interpreted: \<open>lower\<close> maps \<open>A..Z\<close> to \<open>a..z\<close> and leaves every other
  character alone, and the whitespace that \<open>strip\<close> removes is the ASCII whitespace of
  \<open>str.isspace\<close> (codes 9 to 13, 28 to 32).
\<close>

definition lower_chr :: "char \<Rightarrow> char" where
  "lower_chr c =
     (let n = (of_char c :: nat) in if 65 \<le> n \<and> n \<le> 90 then char_of (n + 32) else c)"

definition lower :: "string \<Rightarrow> string" where
  "lower s = map lower_chr s"





text \<open>\<open>p in s\<close>: \<open>p\<close> occurs in \<open>s\<close> as a contiguous run of characters.\<close>

fun py_in :: "string \<Rightarrow> string \<Rightarrow> bool" where
  "py_in p [] = (p = [])"
| "py_in p (c # cs) = (prefix p (c # cs) \<or> py_in p cs)"


definition endswith :: "string \<Rightarrow> string \<Rightarrow> bool" where
  "endswith s p = suffix p s"



section \<open>The command filter of the executor\<close>

definition DANGEROUS_SUBSTRINGS :: "string list" where
  "DANGEROUS_SUBSTRINGS = [''rm -rf /'', ''mkfs'', '':(){ :|:& };:'']"

text \<open>The loop of \<open>_is_command_safe\<close>: the first pattern found returns \<open>False\<close>.\<close>

fun is_command_safe_loop :: "string list \<Rightarrow> string \<Rightarrow> bool" where
  "is_command_safe_loop [] cmd_lower = True"
| "is_command_safe_loop (pattern # rest) cmd_lower =
     (if py_in pattern cmd_lower then False else is_command_safe_loop rest cmd_lower)"

definition is_command_safe :: "string \<Rightarrow> bool" where
  "is_command_safe command =
     (let cmd_lower = lower command in is_command_safe_loop DANGEROUS_SUBSTRINGS cmd_lower)"

section \<open>Python values and exceptions\<close>

text \<open>
  The values that \<open>json.loads\<close> returns and that an action's \<open>args\<close> hold. A \<open>dict\<close>
  is an association list read with \<open>map_of\<close>; its keys are strings, as JSON's are.
\<close>

datatype pyfloat = Finite rat | PosInf | NegInf | NaN

datatype pyval =
    PNone
  | PBool bool
  | PInt int
  | PFloat pyfloat
  | PStr string
  | PList "pyval list"
  | PDict "(string \<times> pyval) list"

datatype exn =
    ValidationError
  | ValueError
  | TypeError
  | OverflowError
  | EOFError
  | RuntimeError
  | FileNotFoundError
  | FileExistsError
  | IsADirectoryError
  | NotADirectoryError
  | PermissionError

section \<open>The plan model (models/action.py, models/plan.py)\<close>

record Action =
  tool :: string
  args :: "(string \<times> pyval) list"

record Plan =
  plan :: string
  actions :: "Action list"

text \<open>
  \<open>Plan.model_validate\<close> is pydantic's validation of the two classes above, in its
  default (lax, extra keys ignored) mode: a field declared \<open>str\<close> takes a string, a field
  declared \<open>List[Action]\<close> a list whose items validate as \<open>Action\<close>, a field declared
  \<open>Dict[str, Any]\<close> a dict; a field with a default may be absent, \<open>tool\<close> (declared with
  \<open>...\<close>) may not. Any failure is a \<open>ValidationError\<close>.
\<close>

definition validate_str :: "pyval \<Rightarrow> exn + string" where
  "validate_str v = (case v of PStr s \<Rightarrow> Inr s | _ \<Rightarrow> Inl ValidationError)"

definition validate_dict :: "pyval \<Rightarrow> exn + (string \<times> pyval) list" where
  "validate_dict v = (case v of PDict kv \<Rightarrow> Inr kv | _ \<Rightarrow> Inl ValidationError)"

definition validate_action :: "pyval \<Rightarrow> exn + Action" where
  "validate_action v =
     (case v of
        PDict kv \<Rightarrow>
          (case map_of kv ''tool'' of
             None \<Rightarrow> Inl ValidationError
           | Some t \<Rightarrow>
               (case validate_str t of
                  Inl e \<Rightarrow> Inl e
                | Inr name \<Rightarrow>
                    (case map_of kv ''args'' of
                       None \<Rightarrow> Inr \<lparr>tool = name, args = []\<rparr>
                     | Some a \<Rightarrow>
                         (case validate_dict a of
                            Inl e \<Rightarrow> Inl e
                          | Inr d \<Rightarrow> Inr \<lparr>tool = name, args = d\<rparr>))))
      | _ \<Rightarrow> Inl ValidationError)"

fun validate_actions :: "pyval list \<Rightarrow> exn + Action list" where
  "validate_actions [] = Inr []"
| "validate_actions (v # vs) =
     (case validate_action v of
        Inl e \<Rightarrow> Inl e
      | Inr a \<Rightarrow> (case validate_actions vs of Inl e \<Rightarrow> Inl e | Inr as \<Rightarrow> Inr (a # as)))"

definition validate_action_list :: "pyval \<Rightarrow> exn + Action list" where
  "validate_action_list v = (case v of PList vs \<Rightarrow> validate_actions vs | _ \<Rightarrow> Inl ValidationError)"

definition default_plan :: string where
  "default_plan = ''No high-level plan provided.''"

definition model_validate :: "pyval \<Rightarrow> exn + Plan" where
  "model_validate data =
     (case data of
        PDict kv \<Rightarrow>
          (case (case map_of kv ''plan'' of None \<Rightarrow> Inr default_plan | Some v \<Rightarrow> validate_str v) of
             Inl e \<Rightarrow> Inl e
           | Inr text \<Rightarrow>
               (case (case map_of kv ''actions'' of None \<Rightarrow> Inr [] | Some v \<Rightarrow> validate_action_list v) of
                  Inl e \<Rightarrow> Inl e
                | Inr acts \<Rightarrow> Inr \<lparr>plan = text, actions = acts\<rparr>))
      | _ \<Rightarrow> Inl ValidationError)"

text \<open>
  The shape that the specification asks of a plan: \<open>plan\<close>, when present, is a string;
  \<open>actions\<close>, when present, is a list of objects with a string \<open>tool\<close> and, when present,
  an object \<open>args\<close>. \<open>plan_of_shape\<close> is the plan it describes, with its defaults.
\<close>

definition is_str :: "pyval \<Rightarrow> bool" where
  "is_str v = (case v of PStr s \<Rightarrow> True | _ \<Rightarrow> False)"

definition is_dict :: "pyval \<Rightarrow> bool" where
  "is_dict v = (case v of PDict kv \<Rightarrow> True | _ \<Rightarrow> False)"

definition the_str :: "pyval \<Rightarrow> string" where
  "the_str v = (case v of PStr s \<Rightarrow> s | _ \<Rightarrow> [])"

definition the_dict :: "pyval \<Rightarrow> (string \<times> pyval) list" where
  "the_dict v = (case v of PDict kv \<Rightarrow> kv | _ \<Rightarrow> [])"

definition the_list :: "pyval \<Rightarrow> pyval list" where
  "the_list v = (case v of PList vs \<Rightarrow> vs | _ \<Rightarrow> [])"

definition action_shape :: "pyval \<Rightarrow> bool" where
  "action_shape v =
     (is_dict v \<and>
      (case map_of (the_dict v) ''tool'' of None \<Rightarrow> False | Some t \<Rightarrow> is_str t) \<and>
      (case map_of (the_dict v) ''args'' of None \<Rightarrow> True | Some a \<Rightarrow> is_dict a))"

definition action_of_shape :: "pyval \<Rightarrow> Action" where
  "action_of_shape v =
     \<lparr>tool = (case map_of (the_dict v) ''tool'' of None \<Rightarrow> [] | Some t \<Rightarrow> the_str t),
      args = (case map_of (the_dict v) ''args'' of None \<Rightarrow> [] | Some a \<Rightarrow> the_dict a)\<rparr>"

definition plan_shape :: "pyval \<Rightarrow> bool" where
  "plan_shape v =
     (is_dict v \<and>
      (case map_of (the_dict v) ''plan'' of None \<Rightarrow> True | Some t \<Rightarrow> is_str t) \<and>
      (case map_of (the_dict v) ''actions'' of
         None \<Rightarrow> True
       | Some a \<Rightarrow> (case a of PList vs \<Rightarrow> list_all action_shape vs | _ \<Rightarrow> False)))"

definition plan_of_shape :: "pyval \<Rightarrow> Plan" where
  "plan_of_shape v =
     \<lparr>plan = (case map_of (the_dict v) ''plan'' of None \<Rightarrow> default_plan | Some t \<Rightarrow> the_str t),
      actions = (case map_of (the_dict v) ''actions'' of
                   None \<Rightarrow> []
                 | Some a \<Rightarrow> map action_of_shape (the_list a))\<rparr>"

section \<open>Parsing the model's answer (core/planner.py)\<close>





















section \<open>Similarity of names (core/tools.py, \<open>_fuzzy_match_score\<close>)\<close>

subsection \<open>\<open>pathlib\<close>: the name and the stem of a path\<close>

text \<open>
  \<open>Path(p).name\<close> on a POSIX path: the last component, empty components and \<open>.\<close>
  dropped; empty when there is none. \<open>Path(p).stem\<close> is the name without its last
  suffix: the text before the last dot when that dot is neither the first nor the last
  character of the name (pathlib up to Python 3.12).
\<close>

fun split_on :: "char \<Rightarrow> string \<Rightarrow> string \<Rightarrow> string list" where
  "split_on sep cur [] = [cur]"
| "split_on sep cur (c # cs) =
     (if c = sep then cur # split_on sep [] cs else split_on sep (cur @ [c]) cs)"

definition path_parts :: "string \<Rightarrow> string list" where
  "path_parts p = filter (\<lambda>part. part \<noteq> [] \<and> part \<noteq> ''.'') (split_on CHR ''/'' [] p)"

definition path_name :: "string \<Rightarrow> string" where
  "path_name p = (let parts = path_parts p in if parts = [] then [] else last parts)"

text \<open>\<open>s.rfind(''.'')\<close>: the index of the last dot.\<close>

fun rfind_dot :: "string \<Rightarrow> nat \<Rightarrow> nat option \<Rightarrow> nat option" where
  "rfind_dot [] i found = found"
| "rfind_dot (c # cs) i found = rfind_dot cs (Suc i) (if c = CHR ''.'' then Some i else found)"

definition path_stem :: "string \<Rightarrow> string" where
  "path_stem p =
     (let name = path_name p in
      case rfind_dot name 0 None of
        None \<Rightarrow> name
      | Some i \<Rightarrow> if 0 < i \<and> i + 1 < length name then take i name else name)"

subsection \<open>\<open>difflib.SequenceMatcher(None, a, b).ratio()\<close>\<close>

text \<open>
  With no junk function and \<open>autojunk\<close> left on, the only characters that
  \<open>SequenceMatcher\<close> sets aside are the popular ones: when \<open>b\<close> has 200 characters or
  more, those that occur more than \<open>len(b) // 100 + 1\<close> times in it.
\<close>

definition popular :: "string \<Rightarrow> char \<Rightarrow> bool" where
  "popular b c = (200 \<le> length b \<and> length b div 100 + 1 < count_list b c)"

text \<open>
  \<open>find_longest_match(alo, ahi, blo, bhi)\<close>. The dictionary \<open>j2len\<close> of the source,
  which maps \<open>j\<close> to the length of the longest match ending with \<open>a[i-1]\<close> and \<open>b[j]\<close>,
  is the list \<open>prev\<close> here, indexed by \<open>j\<close>, with \<open>0\<close> where the dictionary has no
  entry. \<open>row_of\<close> is \<open>newj2len\<close> for the character \<open>x = a[i]\<close>: the source visits the
  indices \<open>j\<close> of \<open>b\<close> that hold \<open>x\<close> (none when \<open>x\<close> is popular), between \<open>blo\<close> and
  \<open>bhi\<close>.
\<close>

definition row_of :: "string \<Rightarrow> nat \<Rightarrow> nat \<Rightarrow> char \<Rightarrow> nat list \<Rightarrow> nat list" where
  "row_of b blo bhi x prev =
     map (\<lambda>j. if blo \<le> j \<and> j < bhi \<and> b ! j = x \<and> \<not> popular b x
              then (if j = 0 then 0 else prev ! (j - 1)) + 1 else 0)
       [0..<length b]"

text \<open>The update of the best match along one row, \<open>j\<close> ascending.\<close>

fun scan_row :: "nat \<Rightarrow> nat list \<Rightarrow> nat \<Rightarrow> nat \<times> nat \<times> nat \<Rightarrow> nat \<times> nat \<times> nat" where
  "scan_row i [] j best = best"
| "scan_row i (k # ks) j (besti, bestj, bestsize) =
     scan_row i ks (Suc j)
       (if bestsize < k then (i + 1 - k, j + 1 - k, k) else (besti, bestj, bestsize))"

function match_rows ::
  "string \<Rightarrow> string \<Rightarrow> nat \<Rightarrow> nat \<Rightarrow> nat \<Rightarrow> nat \<Rightarrow> nat list \<Rightarrow> nat \<times> nat \<times> nat \<Rightarrow> nat \<times> nat \<times> nat"
where
  "match_rows a b blo bhi i ahi prev best =
     (if i < ahi then
        (let row = row_of b blo bhi (a ! i) prev
         in match_rows a b blo bhi (Suc i) ahi row (scan_row i row 0 best))
      else best)"
  by pat_completeness auto
termination
  by (relation "measure (\<lambda>(a, b, blo, bhi, i, ahi, prev, best). ahi - i)") auto

text \<open>The two loops that extend the match over equal characters on either side.\<close>

function extend_left :: "string \<Rightarrow> string \<Rightarrow> nat \<Rightarrow> nat \<Rightarrow> nat \<times> nat \<times> nat \<Rightarrow> nat \<times> nat \<times> nat" where
  "extend_left a b alo blo (besti, bestj, bestsize) =
     (if alo < besti \<and> blo < bestj \<and> a ! (besti - 1) = b ! (bestj - 1)
      then extend_left a b alo blo (besti - 1, bestj - 1, bestsize + 1)
      else (besti, bestj, bestsize))"
  by pat_completeness auto
termination
  by (relation "measure (\<lambda>(a, b, alo, blo, besti, bestj, bestsize). besti)") auto

function extend_right :: "string \<Rightarrow> string \<Rightarrow> nat \<Rightarrow> nat \<Rightarrow> nat \<times> nat \<times> nat \<Rightarrow> nat \<times> nat \<times> nat" where
  "extend_right a b ahi bhi (besti, bestj, bestsize) =
     (if besti + bestsize < ahi \<and> bestj + bestsize < bhi
         \<and> a ! (besti + bestsize) = b ! (bestj + bestsize)
      then extend_right a b ahi bhi (besti, bestj, bestsize + 1)
      else (besti, bestj, bestsize))"
  by pat_completeness auto
termination
  by (relation "measure (\<lambda>(a, b, ahi, bhi, besti, bestj, bestsize). ahi - (besti + bestsize))") auto

definition find_longest_match ::
  "string \<Rightarrow> string \<Rightarrow> nat \<Rightarrow> nat \<Rightarrow> nat \<Rightarrow> nat \<Rightarrow> nat \<times> nat \<times> nat" where
  "find_longest_match a b alo ahi blo bhi =
     extend_right a b ahi bhi
       (extend_left a b alo blo
          (match_rows a b blo bhi alo ahi (replicate (length b) 0) (alo, blo, 0)))"

section \<open>Facts about strings\<close>

lemma py_in_iff: "py_in p s \<longleftrightarrow> (\<exists>u v. s = u @ p @ v)"
proof (induction s)
  case Nil
  then show ?case by auto
next
  case (Cons c cs)
  show ?case
  proof
    assume "py_in p (c # cs)"
    then consider "prefix p (c # cs)" | "py_in p cs" by auto
    then show "\<exists>u v. c # cs = u @ p @ v"
    proof cases
      case 1
      then obtain v where "c # cs = p @ v" by (auto simp: prefix_def)
      then have "c # cs = [] @ p @ v" by simp
      then show ?thesis by blast
    next
      case 2
      with Cons.IH obtain u v where "cs = u @ p @ v" by blast
      then have "c # cs = (c # u) @ p @ v" by simp
      then show ?thesis by blast
    qed
  next
    assume "\<exists>u v. c # cs = u @ p @ v"
    then obtain u v where uv: "c # cs = u @ p @ v" by blast
    show "py_in p (c # cs)"
    proof (cases u)
      case Nil
      with uv have "prefix p (c # cs)" by (simp add: prefix_def)
      then show ?thesis by simp
    next
      case (Cons a u')
      with uv have "cs = u' @ p @ v" by simp
      with Cons.IH have "py_in p cs" by blast
      then show ?thesis by simp
    qed
  qed
qed

lemma py_in_lower_iff:
  "py_in p (lower s) \<longleftrightarrow> (\<exists>u w v. s = u @ w @ v \<and> lower w = p)"
proof
  assume "py_in p (lower s)"
  then obtain a b where "map lower_chr s = a @ (p @ b)"
    by (auto simp: py_in_iff lower_def)
  then obtain u r where s: "s = u @ r" and r: "map lower_chr r = p @ b"
    by (metis map_eq_append_conv)
  from r obtain w v where "r = w @ v" and "map lower_chr w = p"
    by (metis map_eq_append_conv)
  with s show "\<exists>u w v. s = u @ w @ v \<and> lower w = p"
    by (auto simp: lower_def)
next
  assume "\<exists>u w v. s = u @ w @ v \<and> lower w = p"
  then obtain u w v where "s = u @ w @ v" and "lower w = p" by blast
  then have "lower s = lower u @ p @ lower v" by (simp add: lower_def)
  then show "py_in p (lower s)" unfolding py_in_iff by blast
qed

lemma is_command_safe_loop_iff:
  "is_command_safe_loop ps c \<longleftrightarrow> list_all (\<lambda>p. \<not> py_in p c) ps"
  by (induction ps) auto

section \<open>Plan validation checks shape only\<close>

lemma validate_action_shape:
  "validate_action v = (if action_shape v then Inr (action_of_shape v) else Inl ValidationError)"
  by (cases v)
     (auto simp: validate_action_def action_shape_def action_of_shape_def validate_str_def
        validate_dict_def is_dict_def is_str_def the_dict_def the_str_def
        split: option.splits pyval.splits)

lemma validate_actions_shape:
  "validate_actions vs =
     (if list_all action_shape vs then Inr (map action_of_shape vs) else Inl ValidationError)"
  by (induction vs) (auto simp: validate_action_shape)

lemma model_validate_shape:
  "model_validate v = (if plan_shape v then Inr (plan_of_shape v) else Inl ValidationError)"
  by (cases v)
     (auto simp: model_validate_def plan_shape_def plan_of_shape_def validate_str_def
        validate_action_list_def validate_actions_shape is_dict_def is_str_def the_dict_def
        the_str_def the_list_def
        split: option.splits pyval.splits)

text \<open>
  C5. Validation of a plan enforces shape only: a value validates exactly when it is an
  object whose \<open>plan\<close>, when present, is a string and whose \<open>actions\<close>, when present, is
  a list of objects with a string \<open>tool\<close> and, when present, an object \<open>args\<close>; the
  result takes the default text for a missing \<open>plan\<close>, the empty list for missing
  \<open>actions\<close> and the empty map for missing \<open>args\<close>; and any tool name at all validates.
\<close>

theorem plan_validation_shape_only:
  "model_validate v = (if plan_shape v then Inr (plan_of_shape v) else Inl ValidationError)
   \<and> model_validate (PDict []) = Inr \<lparr>plan = ''No high-level plan provided.'', actions = []\<rparr>
   \<and> model_validate (PDict [(''actions'', PList [PDict [(''tool'', PStr t)]])])
       = Inr \<lparr>plan = ''No high-level plan provided.'', actions = [\<lparr>tool = t, args = []\<rparr>]\<rparr>"
  by (simp add: model_validate_shape plan_shape_def plan_of_shape_def is_dict_def the_dict_def
      the_list_def action_shape_def action_of_shape_def is_str_def the_str_def default_plan_def)

section \<open>Extraction of the plan from the model's answer\<close>











end
